theory Spec2Isabelle
  imports Main "HOL-Library.Word" "HOL-Library.AList"
begin

section \<open>Bytes, tags and command-set elements\<close>

type_synonym byte = "8 word"
type_synonym uint16 = "16 word"
type_synonym uint32 = "32 word"

text \<open>\<^verbatim>\<open>dicomtag.Tag{Group, Element}\<close> of the DICOM library: a pair of 16-bit numbers.\<close>

type_synonym Tag = "uint16 \<times> uint16"

text \<open>
  \<^verbatim>\<open>dicom.Value\<close> of the DICOM library is an interface; \<^verbatim>\<open>ValueType()\<close> tells the kind and
  \<^verbatim>\<open>GetValue()\<close> returns the slice. The decoder below only tells \<^verbatim>\<open>[]int\<close> and
  \<^verbatim>\<open>[]string\<close> from everything else.
\<close>

datatype dicomValue =
    IntsValue "int list"
  | StringsValue "string list"
  | BytesValue "byte list"
  | OtherValue

text \<open>\<^verbatim>\<open>*dicom.Element\<close>: the tag and the value (\<open>ElemValue\<close> is its field \<^verbatim>\<open>Value\<close>, \<open>None\<close> when nil).\<close>

datatype Element = Element (Tag: Tag) (ElemValue: "dicomValue option")

type_synonym Dataset = "Element list"

section \<open>Errors\<close>

text \<open>
  The Go code builds its errors with \<^verbatim>\<open>fmt.Errorf\<close>; the model keeps the origin of each
  one and the wrapping (\<^verbatim>\<open>%w\<close>) as \<open>ErrWrap\<close> with the prefix of the message.
\<close>

datatype error =
    ErrTagNotFound string Tag
  | ErrNoValue string Tag
  | ErrNilValue string Tag
  | ErrNotAnInt Tag
  | ErrConvert string Tag
  | ErrOutOfRange "int list"
  | ErrUnknownCommand uint16
  | ErrMixedContext byte byte
  | ErrDuplicateLastCommand
  | ErrDuplicateLastData
  | ErrExternal string
  | ErrWrap string error

section \<open>MessageDecoder\<close>

text \<open>
  \<^verbatim>\<open>MessageDecoder.elements\<close> is a Go map from tag to element. It is an association list
  here, with one entry per key, because \<^verbatim>\<open>UnparsedElements\<close> returns its values as a slice;
  Go iterates a map in no fixed order, so only the set of the returned elements means
  something.
\<close>

record MessageDecoder =
  elements :: "(Tag \<times> Element) list"

datatype isOptionalElement = RequiredElement | OptionalElement

definition UnparsedElements :: "MessageDecoder \<Rightarrow> Element list" where
  "UnparsedElements d = map snd (elements d)"

text \<open>
  \<^verbatim>\<open>GetString\<close>: the result and the decoder after the call (the element is deleted only
  when a string is returned from a non-empty list). \<^verbatim>\<open>rawValue == nil\<close> cannot hold for a
  value of the library, whose \<^verbatim>\<open>GetValue\<close> returns its slice.
\<close>

definition GetString ::
  "MessageDecoder \<Rightarrow> Tag \<Rightarrow> isOptionalElement \<Rightarrow> (error + string) \<times> MessageDecoder" where
  "GetString d tag optional =
     (case map_of (elements d) tag of
        None \<Rightarrow>
          if optional = RequiredElement then (Inl (ErrTagNotFound ''GetString'' tag), d)
          else (Inr '''', d)
      | Some elem \<Rightarrow>
          (case ElemValue elem of
             None \<Rightarrow> (Inl (ErrNoValue ''GetString'' tag), d)
           | Some (StringsValue v) \<Rightarrow>
               if length v = 0 then (Inr '''', d)
               else (Inr (v ! 0), d\<lparr>elements := AList.delete tag (elements d)\<rparr>)
           | Some _ \<Rightarrow> (Inl (ErrConvert ''GetString'' tag), d)))"

text \<open>\<^verbatim>\<open>GetUInt16\<close>: as above, with the check of the value type and of the range.\<close>

definition GetUInt16 ::
  "MessageDecoder \<Rightarrow> Tag \<Rightarrow> isOptionalElement \<Rightarrow> (error + uint16) \<times> MessageDecoder" where
  "GetUInt16 d tag optional =
     (case map_of (elements d) tag of
        None \<Rightarrow>
          if optional = RequiredElement then (Inl (ErrTagNotFound ''GetUInt16'' tag), d)
          else (Inr 0, d)
      | Some elem \<Rightarrow>
          (case ElemValue elem of
             None \<Rightarrow> (Inl (ErrNoValue ''GetUInt16'' tag), d)
           | Some (IntsValue v) \<Rightarrow>
               if length v = 0 then (Inr 0, d)
               else if v ! 0 < 0 \<or> v ! 0 > 65535 then (Inl (ErrOutOfRange v), d)
               else (Inr (word_of_int (v ! 0)), d\<lparr>elements := AList.delete tag (elements d)\<rparr>)
           | Some _ \<Rightarrow> (Inl (ErrNotAnInt tag), d)))"

section \<open>DIMSE messages\<close>

text \<open>
  Package \<^verbatim>\<open>commandset\<close>, which names the tags of the command set, is not among the
  sources: the tags are a parameter of the decoders.
\<close>

record commandset =
  CommandField :: Tag
  AffectedSOPClassUID :: Tag
  MessageID :: Tag
  MessageIDBeingRespondedTo :: Tag
  MoveDestination :: Tag
  Priority :: Tag
  CommandDataSetType :: Tag
  Status :: Tag
  ErrorComment :: Tag
  AffectedSOPInstanceUID :: Tag
  MoveOriginatorApplicationEntityTitle :: Tag
  MoveOriginatorMessageID :: Tag
  NumberOfRemainingSuboperations :: Tag
  NumberOfCompletedSuboperations :: Tag
  NumberOfFailedSuboperations :: Tag
  NumberOfWarningSuboperations :: Tag

text \<open>\<^verbatim>\<open>Status{Status StatusCode; ErrorComment string}\<close>.\<close>

datatype DimseStatus = DimseStatus uint16 string

text \<open>
  The message types, each with the fields of its struct in their order. The files of
  \<^verbatim>\<open>CFindRsp\<close> and \<^verbatim>\<open>CGetRq\<close> are not among the sources: a message of these two types
  is kept as its command field and the answer of its \<^verbatim>\<open>HasData\<close>.
\<close>

datatype Message =
    CStoreRq string uint16 uint16 uint16 string string uint16 "Element list"
  | CStoreRsp string uint16 uint16 string DimseStatus "Element list"
  | CFindRq string uint16 uint16 uint16 "Element list"
  | CGetRsp string uint16 uint16 uint16 uint16 uint16 uint16 DimseStatus "Element list"
  | CMoveRq string uint16 uint16 string uint16 "Element list"
  | CMoveRsp string uint16 uint16 uint16 uint16 uint16 uint16 DimseStatus "Element list"
  | CEchoRq uint16 uint16 "Element list"
  | CEchoRsp uint16 uint16 DimseStatus "Element list"
  | AbsentMessage uint16 bool

definition CommandDataSetTypeNull :: uint16 where
  "CommandDataSetTypeNull = 0x101"

definition CommandDataSetTypeNonNull :: uint16 where
  "CommandDataSetTypeNonNull = 1"

fun HasData :: "Message \<Rightarrow> bool" where
  "HasData (CStoreRq _ _ _ cdst _ _ _ _) = (cdst \<noteq> CommandDataSetTypeNull)"
| "HasData (CStoreRsp _ _ cdst _ _ _) = (cdst \<noteq> CommandDataSetTypeNull)"
| "HasData (CFindRq _ _ _ cdst _) = (cdst \<noteq> CommandDataSetTypeNull)"
| "HasData (CGetRsp _ _ cdst _ _ _ _ _ _) = (cdst \<noteq> CommandDataSetTypeNull)"
| "HasData (CMoveRq _ _ _ _ cdst _) = (cdst \<noteq> CommandDataSetTypeNull)"
| "HasData (CMoveRsp _ _ cdst _ _ _ _ _ _) = (cdst \<noteq> CommandDataSetTypeNull)"
| "HasData (CEchoRq _ cdst _) = (cdst \<noteq> CommandDataSetTypeNull)"
| "HasData (CEchoRsp _ cdst _ _) = (cdst \<noteq> CommandDataSetTypeNull)"
| "HasData (AbsentMessage _ hasData) = hasData"

definition CommandFieldCStoreRq :: uint16 where "CommandFieldCStoreRq = 0x0001"
definition CommandFieldCStoreRsp :: uint16 where "CommandFieldCStoreRsp = 0x8001"
definition CommandFieldCFindRq :: uint16 where "CommandFieldCFindRq = 0x0020"
definition CommandFieldCFindRsp :: uint16 where "CommandFieldCFindRsp = 0x8020"
definition CommandFieldCGetRq :: uint16 where "CommandFieldCGetRq = 0x0010"
definition CommandFieldCGetRsp :: uint16 where "CommandFieldCGetRsp = 0x8010"
definition CommandFieldCMoveRq :: uint16 where "CommandFieldCMoveRq = 0x0021"
definition CommandFieldCMoveRsp :: uint16 where "CommandFieldCMoveRsp = 0x8021"
definition CommandFieldCEchoRq :: uint16 where "CommandFieldCEchoRq = 0x0030"
definition CommandFieldCEchoRsp :: uint16 where "CommandFieldCEchoRsp = 0x8030"

subsection \<open>Decoding the fields of a message\<close>

text \<open>
  Each \<^verbatim>\<open>decode\<close> reads its fields in turn and returns at the first error, wrapped with
  a message. \<open>thenD r msg k\<close> is one such step: \<open>r\<close> is the result of a getter and the
  decoder after it.
\<close>

definition thenD ::
  "(error + 'a) \<times> MessageDecoder \<Rightarrow> string
     \<Rightarrow> ('a \<Rightarrow> MessageDecoder \<Rightarrow> (error + 'b) \<times> MessageDecoder)
     \<Rightarrow> (error + 'b) \<times> MessageDecoder" where
  "thenD r msg k =
     (case r of
        (Inl e, d) \<Rightarrow> (Inl (ErrWrap msg e), d)
      | (Inr v, d) \<Rightarrow> k v d)"

definition GetStatus :: "commandset \<Rightarrow> MessageDecoder \<Rightarrow> (error + DimseStatus) \<times> MessageDecoder" where
  "GetStatus cs d =
     thenD (GetUInt16 d (Status cs) RequiredElement)
       ''GetStatus: failed to get status code'' (\<lambda>statusCode d.
     thenD (GetString d (ErrorComment cs) OptionalElement)
       ''GetStatus: failed to get error comment'' (\<lambda>comment d.
     (Inr (DimseStatus statusCode comment), d)))"

definition GetCommandDataSetType :: "commandset \<Rightarrow> MessageDecoder \<Rightarrow> (error + uint16) \<times> MessageDecoder" where
  "GetCommandDataSetType cs d =
     thenD (GetUInt16 d (CommandDataSetType cs) RequiredElement)
       ''GetCommandDataSetType: failed to get command data set type'' (\<lambda>cmdDataSetType d.
     (Inr cmdDataSetType, d))"

definition decodeCStoreRq :: "commandset \<Rightarrow> MessageDecoder \<Rightarrow> (error + Message) \<times> MessageDecoder" where
  "decodeCStoreRq cs d =
     thenD (GetString d (AffectedSOPClassUID cs) RequiredElement)
       ''cStoreRq.decode: failed to decode AffectedSOPClassUID'' (\<lambda>sopClass d.
     thenD (GetUInt16 d (MessageID cs) RequiredElement)
       ''cStoreRq.decode: failed to decode MessageID'' (\<lambda>messageID d.
     thenD (GetUInt16 d (Priority cs) RequiredElement)
       ''cStoreRq.decode: failed to decode Priority'' (\<lambda>priority d.
     thenD (GetCommandDataSetType cs d)
       ''cStoreRq.decode: failed to decode CommandDataSetType'' (\<lambda>cdst d.
     thenD (GetString d (AffectedSOPInstanceUID cs) RequiredElement)
       ''cStoreRq.decode: failed to decode AffectedSOPInstanceUID'' (\<lambda>sopInstance d.
     thenD (GetString d (MoveOriginatorApplicationEntityTitle cs) OptionalElement)
       ''cStoreRq.decode: failed to decode MoveOriginatorApplicationEntityTitle'' (\<lambda>moveAE d.
     thenD (GetUInt16 d (MoveOriginatorMessageID cs) OptionalElement)
       ''cStoreRq.decode: failed to decode MoveOriginatorMessageID'' (\<lambda>moveID d.
     (Inr (CStoreRq sopClass messageID priority cdst sopInstance moveAE moveID
             (UnparsedElements d)), d))))))))"

definition decodeCStoreRsp :: "commandset \<Rightarrow> MessageDecoder \<Rightarrow> (error + Message) \<times> MessageDecoder" where
  "decodeCStoreRsp cs d =
     thenD (GetString d (AffectedSOPClassUID cs) RequiredElement)
       ''cStoreRsp.decode: failed to decode AffectedSOPClassUID'' (\<lambda>sopClass d.
     thenD (GetUInt16 d (MessageIDBeingRespondedTo cs) RequiredElement)
       ''cStoreRsp.decode: failed to decode MessageIDBeingRespondedTo'' (\<lambda>messageID d.
     thenD (GetCommandDataSetType cs d)
       ''cStoreRsp.decode: failed to decode CommandDataSetType'' (\<lambda>cdst d.
     thenD (GetString d (AffectedSOPInstanceUID cs) RequiredElement)
       ''cStoreRsp.decode: failed to decode AffectedSOPInstanceUID'' (\<lambda>sopInstance d.
     thenD (GetStatus cs d)
       ''cStoreRsp.decode: failed to decode Status'' (\<lambda>status d.
     (Inr (CStoreRsp sopClass messageID cdst sopInstance status (UnparsedElements d)), d))))))"

definition decodeCFindRq :: "commandset \<Rightarrow> MessageDecoder \<Rightarrow> (error + Message) \<times> MessageDecoder" where
  "decodeCFindRq cs d =
     thenD (GetString d (AffectedSOPClassUID cs) RequiredElement)
       ''cFindRq.decode: failed to decode AffectedSOPClassUID'' (\<lambda>sopClass d.
     thenD (GetUInt16 d (MessageID cs) RequiredElement)
       ''cFindRq.decode: failed to decode MessageID'' (\<lambda>messageID d.
     thenD (GetUInt16 d (Priority cs) RequiredElement)
       ''cFindRq.decode: failed to decode Priority'' (\<lambda>priority d.
     thenD (GetCommandDataSetType cs d)
       ''cFindRq.decode: failed to decode CommandDataSetType'' (\<lambda>cdst d.
     (Inr (CFindRq sopClass messageID priority cdst (UnparsedElements d)), d)))))"

text \<open>\<^verbatim>\<open>CGetRsp.decode\<close> and \<^verbatim>\<open>CMoveRsp.decode\<close> read the same fields.\<close>

definition decodeSuboperationsRsp ::
  "string \<Rightarrow> (string \<Rightarrow> uint16 \<Rightarrow> uint16 \<Rightarrow> uint16 \<Rightarrow> uint16 \<Rightarrow> uint16 \<Rightarrow> uint16
       \<Rightarrow> DimseStatus \<Rightarrow> Element list \<Rightarrow> Message)
     \<Rightarrow> commandset \<Rightarrow> MessageDecoder \<Rightarrow> (error + Message) \<times> MessageDecoder" where
  "decodeSuboperationsRsp name mk cs d =
     thenD (GetString d (AffectedSOPClassUID cs) RequiredElement)
       (name @ ''.decode: failed to decode AffectedSOPClassUID'') (\<lambda>sopClass d.
     thenD (GetUInt16 d (MessageIDBeingRespondedTo cs) RequiredElement)
       (name @ ''.decode: failed to decode MessageIDBeingRespondedTo'') (\<lambda>messageID d.
     thenD (GetCommandDataSetType cs d)
       (name @ ''.decode: failed to decode CommandDataSetType'') (\<lambda>cdst d.
     thenD (GetUInt16 d (NumberOfRemainingSuboperations cs) OptionalElement)
       (name @ ''.decode: failed to decode NumberOfRemainingSuboperations'') (\<lambda>remaining d.
     thenD (GetUInt16 d (NumberOfCompletedSuboperations cs) OptionalElement)
       (name @ ''.decode: failed to decode NumberOfCompletedSuboperations'') (\<lambda>completed d.
     thenD (GetUInt16 d (NumberOfFailedSuboperations cs) OptionalElement)
       (name @ ''.decode: failed to decode NumberOfFailedSuboperations'') (\<lambda>failed d.
     thenD (GetUInt16 d (NumberOfWarningSuboperations cs) OptionalElement)
       (name @ ''.decode: failed to decode NumberOfWarningSuboperations'') (\<lambda>warning d.
     thenD (GetStatus cs d)
       (name @ ''.decode: failed to decode Status'') (\<lambda>status d.
     (Inr (mk sopClass messageID cdst remaining completed failed warning status
             (UnparsedElements d)), d)))))))))"

definition decodeCGetRsp :: "commandset \<Rightarrow> MessageDecoder \<Rightarrow> (error + Message) \<times> MessageDecoder" where
  "decodeCGetRsp = decodeSuboperationsRsp ''CGetRsp'' CGetRsp"

definition decodeCMoveRsp :: "commandset \<Rightarrow> MessageDecoder \<Rightarrow> (error + Message) \<times> MessageDecoder" where
  "decodeCMoveRsp = decodeSuboperationsRsp ''cMoveRsp'' CMoveRsp"

definition decodeCMoveRq :: "commandset \<Rightarrow> MessageDecoder \<Rightarrow> (error + Message) \<times> MessageDecoder" where
  "decodeCMoveRq cs d =
     thenD (GetString d (AffectedSOPClassUID cs) RequiredElement)
       ''cMoveRq.decode: failed to decode AffectedSOPClassUID'' (\<lambda>sopClass d.
     thenD (GetUInt16 d (MessageID cs) RequiredElement)
       ''cMoveRq.decode: failed to decode MessageID'' (\<lambda>messageID d.
     thenD (GetUInt16 d (Priority cs) RequiredElement)
       ''cMoveRq.decode: failed to decode Priority'' (\<lambda>priority d.
     thenD (GetString d (MoveDestination cs) RequiredElement)
       ''cMoveRq.decode: failed to decode MoveDestination'' (\<lambda>destination d.
     thenD (GetCommandDataSetType cs d)
       ''cMoveRq.decode: failed to decode CommandDataSetType'' (\<lambda>cdst d.
     (Inr (CMoveRq sopClass messageID priority destination cdst (UnparsedElements d)), d))))))"

definition decodeCEchoRq :: "commandset \<Rightarrow> MessageDecoder \<Rightarrow> (error + Message) \<times> MessageDecoder" where
  "decodeCEchoRq cs d =
     thenD (GetUInt16 d (MessageID cs) RequiredElement)
       ''CEchoRq.decode: failed to get MessageID'' (\<lambda>messageID d.
     thenD (GetCommandDataSetType cs d)
       ''CEchoRq.decode: failed to get CommandDataSetType'' (\<lambda>cdst d.
     (Inr (CEchoRq messageID cdst (UnparsedElements d)), d)))"

definition decodeCEchoRsp :: "commandset \<Rightarrow> MessageDecoder \<Rightarrow> (error + Message) \<times> MessageDecoder" where
  "decodeCEchoRsp cs d =
     thenD (GetUInt16 d (MessageIDBeingRespondedTo cs) RequiredElement)
       ''cEchoRsp.decode: failed to decode MessageIDBeingRespondedTo'' (\<lambda>messageID d.
     thenD (GetCommandDataSetType cs d)
       ''cEchoRsp.decode: failed to decode CommandDataSetType'' (\<lambda>cdst d.
     thenD (GetStatus cs d)
       ''cEchoRsp.decode: failed to decode Status'' (\<lambda>status d.
     (Inr (CEchoRsp messageID cdst status (UnparsedElements d)), d))))"

subsection \<open>Decode and ReadMessage\<close>

text \<open>
  A Go variable of the interface type \<^verbatim>\<open>Message\<close> is nil, or holds a message, or holds a
  nil pointer of a message type: each \<^verbatim>\<open>decode\<close> returns a nil pointer with its error,
  and \<^verbatim>\<open>Decode\<close> returns it as a \<^verbatim>\<open>Message\<close>, which is then not nil.
\<close>

datatype commandSlot = NilMessage | TypedNil | TheMessage Message

text \<open>
  What the decoding takes from outside the sources: the tags of package \<^verbatim>\<open>commandset\<close>,
  \<^verbatim>\<open>dicom.Parse\<close> of the DICOM library, and the \<^verbatim>\<open>decode\<close> of the two message types
  whose files are absent.
\<close>

record deps =
  tags :: commandset
  Parse :: "byte list \<Rightarrow> error + Dataset"
  decodeCFindRsp :: "MessageDecoder \<Rightarrow> error + Message"
  decodeCGetRq :: "MessageDecoder \<Rightarrow> error + Message"

definition typedResult :: "error + Message \<Rightarrow> commandSlot \<times> error option" where
  "typedResult r = (case r of Inl e \<Rightarrow> (TypedNil, Some e) | Inr m \<Rightarrow> (TheMessage m, None))"

definition Decode :: "deps \<Rightarrow> MessageDecoder \<Rightarrow> uint16 \<Rightarrow> commandSlot \<times> error option" where
  "Decode deps d commandField =
     (if commandField = CommandFieldCStoreRq then typedResult (fst (decodeCStoreRq (tags deps) d))
      else if commandField = CommandFieldCStoreRsp then typedResult (fst (decodeCStoreRsp (tags deps) d))
      else if commandField = CommandFieldCFindRq then typedResult (fst (decodeCFindRq (tags deps) d))
      else if commandField = CommandFieldCFindRsp then typedResult (decodeCFindRsp deps d)
      else if commandField = CommandFieldCGetRq then typedResult (decodeCGetRq deps d)
      else if commandField = CommandFieldCGetRsp then typedResult (fst (decodeCGetRsp (tags deps) d))
      else if commandField = CommandFieldCMoveRq then typedResult (fst (decodeCMoveRq (tags deps) d))
      else if commandField = CommandFieldCMoveRsp then typedResult (fst (decodeCMoveRsp (tags deps) d))
      else if commandField = CommandFieldCEchoRq then typedResult (fst (decodeCEchoRq (tags deps) d))
      else if commandField = CommandFieldCEchoRsp then typedResult (fst (decodeCEchoRsp (tags deps) d))
      else (NilMessage, Some (ErrUnknownCommand commandField)))"

text \<open>
  \<^verbatim>\<open>ReadMessage\<close> fills the map of the decoder from the elements of the data set in their
  order (a later element of the same tag replaces the earlier one).
\<close>

definition ReadMessage :: "deps \<Rightarrow> Dataset \<Rightarrow> commandSlot \<times> error option" where
  "ReadMessage deps dataset =
     (let mDecoder = \<lparr>elements = foldl (\<lambda>m elem. AList.update (Tag elem) elem m) [] dataset\<rparr>
      in case GetUInt16 mDecoder (CommandField (tags deps)) RequiredElement of
           (Inl e, d) \<Rightarrow> (NilMessage, Some (ErrWrap ''ReadMessage: failed to get command field'' e))
         | (Inr commandField, d) \<Rightarrow> Decode deps d commandField)"

section \<open>DecodeDIMSECommandMap\<close>

text \<open>The values of the map: a string, a \<^verbatim>\<open>uint16\<close> or raw bytes.\<close>

datatype mapValue = MString "byte list" | MUInt16 uint16 | MBytes "byte list"

text \<open>\<^verbatim>\<open>binary.LittleEndian\<close>: the first byte is the lowest.\<close>

definition le16 :: "byte \<Rightarrow> byte \<Rightarrow> uint16" where
  "le16 b0 b1 = word_of_nat (unat b0 + 256 * unat b1)"

definition le32 :: "byte \<Rightarrow> byte \<Rightarrow> byte \<Rightarrow> byte \<Rightarrow> uint32" where
  "le32 b0 b1 b2 b3 =
     word_of_nat (unat b0 + 256 * unat b1 + 65536 * unat b2 + 16777216 * unat b3)"

text \<open>\<^verbatim>\<open>fmt.Sprintf("(%04X,%04X)", group, element)\<close>.\<close>

definition hexDigit :: "nat \<Rightarrow> char" where
  "hexDigit n = ''0123456789ABCDEF'' ! (n mod 16)"

definition hex4 :: "uint16 \<Rightarrow> string" where
  "hex4 w =
     [hexDigit (unat w div 4096), hexDigit (unat w div 256), hexDigit (unat w div 16),
      hexDigit (unat w)]"

definition tagStr :: "uint16 \<Rightarrow> uint16 \<Rightarrow> string" where
  "tagStr grp elt = ''('' @ hex4 grp @ '','' @ hex4 elt @ '')''"

text \<open>The \<^verbatim>\<open>switch tagStr\<close> of the loop body: what one element adds to the map.\<close>

definition storeElement ::
  "(string \<rightharpoonup> mapValue) \<Rightarrow> uint16 \<Rightarrow> uint16 \<Rightarrow> byte list \<Rightarrow> (string \<rightharpoonup> mapValue)" where
  "storeElement result grp elt val =
     (let t = tagStr grp elt in
      if t = ''(0000,0002)'' then result(''SOPClassUID'' \<mapsto> MString val)
      else if t = ''(0000,0100)'' then
        (if length val \<ge> 2 then result(''CommandField'' \<mapsto> MUInt16 (le16 (val ! 0) (val ! 1)))
         else result)
      else if t = ''(0000,0110)'' then
        (if length val \<ge> 2 then result(''MessageID'' \<mapsto> MUInt16 (le16 (val ! 0) (val ! 1)))
         else result)
      else if t = ''(0000,0120)'' then
        (if length val \<ge> 2
         then result(''MessageIDBeingRespondedTo'' \<mapsto> MUInt16 (le16 (val ! 0) (val ! 1)))
         else result)
      else if t = ''(0000,0200)'' then
        (if length val \<ge> 2 then result(''DataSetType'' \<mapsto> MUInt16 (le16 (val ! 0) (val ! 1)))
         else result)
      else if t = ''(0000,0800)'' then
        (if length val \<ge> 2 then result(''Priority'' \<mapsto> MUInt16 (le16 (val ! 0) (val ! 1)))
         else result)
      else result(t \<mapsto> MBytes val))"

text \<open>
  The loop of \<^verbatim>\<open>DecodeDIMSECommandMap\<close> over what is left in the reader: group, element
  and length are read in little-endian order (a short read breaks the loop), then
  \<^verbatim>\<open>length\<close> bytes of value; when fewer are left, \<^verbatim>\<open>reader.Read\<close> returns fewer and the
  loop breaks.
\<close>

function decodeElements :: "byte list \<Rightarrow> (string \<rightharpoonup> mapValue) \<Rightarrow> (string \<rightharpoonup> mapValue)" where
  "decodeElements r result =
     (if length r > 0 then
        (if length r < 2 then result
         else if length r < 4 then result
         else if length r < 8 then result
         else
           (let grp = le16 (r ! 0) (r ! 1);
                elt = le16 (r ! 2) (r ! 3);
                len = le32 (r ! 4) (r ! 5) (r ! 6) (r ! 7);
                rest = drop 8 r;
                n = min (unat len) (length rest)
            in if n \<noteq> unat len then result
               else decodeElements (drop n rest) (storeElement result grp elt (take n rest))))
      else result)"
  by pat_completeness auto
termination
  by (relation "measure (\<lambda>(r, result). length r)") auto

declare decodeElements.simps [simp del]

definition DecodeDIMSECommandMap :: "byte list \<Rightarrow> (string \<rightharpoonup> mapValue)" where
  "DecodeDIMSECommandMap raw = decodeElements raw Map.empty"

section \<open>CommandAssembler\<close>

text \<open>\<^verbatim>\<open>pdu.PresentationDataValueItem\<close> and \<^verbatim>\<open>pdu.PDataTf\<close>, with the fields the sources use.\<close>

record PresentationDataValueItem =
  ContextID :: byte
  Command :: bool
  Last :: bool
  Value :: "byte list"

record PDataTf =
  Items :: "PresentationDataValueItem list"

record CommandAssembler =
  contextID :: byte
  commandBytes :: "byte list"
  command :: commandSlot
  dataBytes :: "byte list"
  readAllCommand :: bool
  readAllData :: bool

text \<open>\<^verbatim>\<open>CommandAssembler{}\<close>, the zero value.\<close>

definition emptyCommandAssembler :: CommandAssembler where
  "emptyCommandAssembler =
     \<lparr>contextID = 0, commandBytes = [], command = NilMessage, dataBytes = [],
      readAllCommand = False, readAllData = False\<rparr>"

text \<open>
  The body of the loop over the items of a PDU: the error it returns, if any, and the
  assembler after it (the bytes of the item are appended before the Last bit is checked).
\<close>

definition addItem ::
  "CommandAssembler \<Rightarrow> PresentationDataValueItem \<Rightarrow> error option \<times> CommandAssembler" where
  "addItem ca item =
     (if contextID ca \<noteq> 0 \<and> contextID ca \<noteq> ContextID item
      then (Some (ErrMixedContext (contextID ca) (ContextID item)), ca)
      else
        (let ca1 = (if contextID ca = 0 then ca\<lparr>contextID := ContextID item\<rparr> else ca) in
         if Command item then
           (let ca2 = ca1\<lparr>commandBytes := commandBytes ca1 @ Value item\<rparr> in
            if Last item then
              (if readAllCommand ca2 then (Some ErrDuplicateLastCommand, ca2)
               else (None, ca2\<lparr>readAllCommand := True\<rparr>))
            else (None, ca2))
         else
           (let ca2 = ca1\<lparr>dataBytes := dataBytes ca1 @ Value item\<rparr> in
            if Last item then
              (if readAllData ca2 then (Some ErrDuplicateLastData, ca2)
               else (None, ca2\<lparr>readAllData := True\<rparr>))
            else (None, ca2))))"

fun addItems ::
  "CommandAssembler \<Rightarrow> PresentationDataValueItem list \<Rightarrow> error option \<times> CommandAssembler" where
  "addItems ca [] = (None, ca)"
| "addItems ca (item # items) =
     (case addItem ca item of
        (Some e, ca') \<Rightarrow> (Some e, ca')
      | (None, ca') \<Rightarrow> addItems ca' items)"

text \<open>
  The data set that \<^verbatim>\<open>AddDataPDU\<close> reads the message from. Under 100 bytes the command
  bytes go through \<^verbatim>\<open>DecodeDIMSECommandMap\<close>, and only a command field of 48 gives
  elements: the command field, the message ID (1 when absent) and the element of tag
  (0000,0800) (257 when absent). \<^verbatim>\<open>dicom.NewElement\<close> of the DICOM library, whose error
  the code drops, is taken to return the element of the tag with the given ints. The
  command field of the map is always a \<^verbatim>\<open>uint16\<close> (see \<open>DecodeDIMSECommandMap_uint16\<close>), so
  the type assertions of the code cannot fail. From 100 bytes on, \<^verbatim>\<open>dicom.Parse\<close> reads
  the bytes.
\<close>

definition NewElement :: "Tag \<Rightarrow> int list \<Rightarrow> Element" where
  "NewElement t ints = Element t (Some (IntsValue ints))"

definition commandDataset :: "deps \<Rightarrow> byte list \<Rightarrow> error + Dataset" where
  "commandDataset deps bytes =
     (if length bytes < 100 then
        (let data = DecodeDIMSECommandMap bytes in
         case data ''CommandField'' of
           Some (MUInt16 commandField) \<Rightarrow>
             if uint commandField = 48 then
               Inr [NewElement (0x0000, 0x0100) [48],
                    (case data ''MessageID'' of
                       Some (MUInt16 messageId) \<Rightarrow> NewElement (0x0000, 0x0110) [uint messageId]
                     | _ \<Rightarrow> NewElement (0x0000, 0x0110) [1]),
                    (case data ''Priority'' of
                       Some (MUInt16 priority) \<Rightarrow> NewElement (0x0000, 0x0800) [uint priority]
                     | _ \<Rightarrow> NewElement (0x0000, 0x0800) [257])]
             else Inr []
         | _ \<Rightarrow> Inr [])
      else
        (case Parse deps bytes of
           Inl err \<Rightarrow> Inl (ErrWrap ''P_DATA_TF: failed to parse command bytes'' err)
         | Inr parser \<Rightarrow> Inr parser))"

text \<open>What a Go panic stops the program with.\<close>

datatype panic =
    PanicAssert
  | PanicTypeAssertion
  | PanicNilDereference
  | PanicCloseOfClosedChannel
  | PanicSendOnClosedChannel
  | PanicIllegalSyntaxName string
  | PanicInvalidMaxPDUSize int
  | PanicEncodeDIMSE error
  | PanicFoundDIMSEData nat
  | PanicUnknownEventType int

text \<open>
  \<^verbatim>\<open>AddDataPDU\<close>: the values it returns (the error, or context ID, message and data; a
  nil message is \<open>None\<close>) and the assembler after the call. Calling \<^verbatim>\<open>HasData\<close> on a nil
  pointer, which a failed \<^verbatim>\<open>decode\<close> of an earlier call leaves in \<^verbatim>\<open>command\<close>, panics.
\<close>

definition AddDataPDU ::
  "deps \<Rightarrow> CommandAssembler \<Rightarrow> PDataTf
     \<Rightarrow> panic + ((error + byte \<times> Message option \<times> byte list) \<times> CommandAssembler)" where
  "AddDataPDU deps ca pdu =
     (case addItems ca (Items pdu) of
        (Some e, ca1) \<Rightarrow> Inr (Inl e, ca1)
      | (None, ca1) \<Rightarrow>
          if \<not> readAllCommand ca1 then Inr (Inr (0, None, []), ca1)
          else
            (case (if command ca1 = NilMessage
                   then (case commandDataset deps (commandBytes ca1) of
                           Inl e \<Rightarrow> (Some e, ca1)
                         | Inr parser \<Rightarrow>
                             (case ReadMessage deps parser of
                                (slot, err) \<Rightarrow> (err, ca1\<lparr>command := slot\<rparr>)))
                   else (None, ca1)) of
               (Some e, ca2) \<Rightarrow> Inr (Inl e, ca2)
             | (None, ca2) \<Rightarrow>
                 (case command ca2 of
                    TheMessage m \<Rightarrow>
                      if HasData m \<and> \<not> readAllData ca2 then Inr (Inr (0, None, []), ca2)
                      else Inr (Inr (contextID ca2, Some m, dataBytes ca2), emptyCommandAssembler)
                  | _ \<Rightarrow> Inl PanicNilDereference)))"

section \<open>PDUs, context manager and the record of the state machine\<close>

text \<open>
  Package \<^verbatim>\<open>pdu_item\<close> is not among the sources and the state machine only passes the
  sub-items of an association PDU on: they are kept opaque.
\<close>

typedecl SubItem

text \<open>
  The PDUs of package \<^verbatim>\<open>pdu\<close>, with the fields the state machine reads or sets:
  \<^verbatim>\<open>AAssociateRQ\<close> and \<^verbatim>\<open>AAssociateAC\<close> carry ProtocolVersion, CalledAETitle,
  CallingAETitle and Items; \<^verbatim>\<open>AAssociateRj\<close> Result, Source and Reason; \<^verbatim>\<open>AAbort\<close> Source
  and Reason.
\<close>

datatype PDU =
    AAssociateRQ uint16 string string "SubItem list"
  | AAssociateAC uint16 string string "SubItem list"
  | AAssociateRj byte byte byte
  | PDataTfPDU PDataTf
  | AReleaseRq
  | AReleaseRp
  | AAbort byte byte
  | OtherPDU

text \<open>
  Modelled from the spec: the context manager, whose file is not among the sources. It
  is ``a mapping context_id \<rightarrow> Context plus auxiliary indexes by_abstract_syntax and
  peer_max_pdu_size'', a context being the triple of context ID, abstract syntax and
  transfer syntax. \<^verbatim>\<open>splitDataIntoPDUs\<close> compares \<^verbatim>\<open>peerMaxPDUSize - 8\<close> with \<^verbatim>\<open>len(data)\<close>,
  so the field is a Go \<^verbatim>\<open>int\<close>; it is an unbounded integer here (the sizes a peer can
  announce fit 32 bits, far from the bounds of a 64-bit \<^verbatim>\<open>int\<close>).
\<close>

datatype contextManagerEntry =
  contextManagerEntry (entryContextID: byte) (entryAbstractSyntax: string) (entryTransferSyntax: string)

record contextManager =
  contextIDToAbstractSyntaxNameMap :: "byte \<rightharpoonup> contextManagerEntry"
  abstractSyntaxNameToContextIDMap :: "string \<rightharpoonup> contextManagerEntry"
  peerMaxPDUSize :: int

text \<open>
  Modelled from the spec: \<^verbatim>\<open>lookupByAbstractSyntaxUID\<close>, the lookup of a context by its
  abstract syntax (``lookup_by_abstract_syntax(uid) \<rightarrow> Context''); the code takes a context
  and an error from it.
\<close>

definition lookupByAbstractSyntaxUID :: "contextManager \<Rightarrow> string \<Rightarrow> error + contextManagerEntry" where
  "lookupByAbstractSyntaxUID m name =
     (case abstractSyntaxNameToContextIDMap m name of
        None \<Rightarrow> Inl (ErrExternal ''unknown abstract syntax'')
      | Some e \<Rightarrow> Inr e)"

type_synonym stateType = int
type_synonym eventType = int

definition sta01 :: stateType where "sta01 = 1"
definition sta02 :: stateType where "sta02 = 2"
definition sta03 :: stateType where "sta03 = 3"
definition sta04 :: stateType where "sta04 = 4"
definition sta05 :: stateType where "sta05 = 5"
definition sta06 :: stateType where "sta06 = 6"
definition sta07 :: stateType where "sta07 = 7"
definition sta08 :: stateType where "sta08 = 8"
definition sta09 :: stateType where "sta09 = 9"
definition sta10 :: stateType where "sta10 = 10"
definition sta11 :: stateType where "sta11 = 11"
definition sta12 :: stateType where "sta12 = 12"
definition sta13 :: stateType where "sta13 = 13"

definition evt01 :: eventType where "evt01 = 1"
definition evt02 :: eventType where "evt02 = 2"
definition evt03 :: eventType where "evt03 = 3"
definition evt04 :: eventType where "evt04 = 4"
definition evt05 :: eventType where "evt05 = 5"
definition evt06 :: eventType where "evt06 = 6"
definition evt07 :: eventType where "evt07 = 7"
definition evt08 :: eventType where "evt08 = 8"
definition evt09 :: eventType where "evt09 = 9"
definition evt10 :: eventType where "evt10 = 10"
definition evt11 :: eventType where "evt11 = 11"
definition evt12 :: eventType where "evt12 = 12"
definition evt13 :: eventType where "evt13 = 13"
definition evt14 :: eventType where "evt14 = 14"
definition evt15 :: eventType where "evt15 = 15"
definition evt16 :: eventType where "evt16 = 16"
definition evt17 :: eventType where "evt17 = 17"
definition evt18 :: eventType where "evt18 = 18"
definition evt19 :: eventType where "evt19 = 19"

lemmas sta_defs =
  sta01_def sta02_def sta03_def sta04_def sta05_def sta06_def sta07_def sta08_def sta09_def
  sta10_def sta11_def sta12_def sta13_def

lemmas evt_defs =
  evt01_def evt02_def evt03_def evt04_def evt05_def evt06_def evt07_def evt08_def evt09_def
  evt10_def evt11_def evt12_def evt13_def evt14_def evt15_def evt16_def evt17_def evt18_def
  evt19_def

text \<open>
  \<^verbatim>\<open>net.Conn\<close> is the transport, outside the engine. The model keeps of it whether a
  write to it succeeds; \<^verbatim>\<open>Close\<close> ends that.
\<close>

datatype Conn = Conn (writable: bool)

datatype stateEventDIMSEPayload =
  stateEventDIMSEPayload (abstractSyntaxName: string) (payloadCommand: "Message option")
    (payloadData: "byte list")

text \<open>
  \<^verbatim>\<open>stateEvent\<close>; \<open>eventConn\<close> is its field \<^verbatim>\<open>conn\<close>. The field \<^verbatim>\<open>debug\<close>, read only to
  print the event, is left out.
\<close>

record stateEvent =
  event :: eventType
  pdu :: "PDU option"
  err :: "error option"
  eventConn :: "Conn option"
  dimsePayload :: "stateEventDIMSEPayload option"

text \<open>
  \<^verbatim>\<open>upcallEvent\<close>: the handshake-completed event carries the context manager, the data
  event also the context ID, the command and the data.
\<close>

datatype upcallEvent =
    upcallEventHandshakeCompleted contextManager
  | upcallEventData contextManager byte Message "byte list"

text \<open>
  What an action does to the world outside the record of the state machine, in the order
  it does it: a PDU written to the connection (a write that succeeded), the connection closed, an event sent on
  the upcall, downcall or error channel, the upcall channel closed, the reader started.
\<close>

datatype effect =
    ConnWrite PDU
  | ConnClose
  | Upcall upcallEvent
  | Downcall stateEvent
  | ErrorEvent stateEvent
  | UpcallChClose
  | ReaderStart

text \<open>
  The timer channel: nil at first; \<^verbatim>\<open>startTimer\<close> makes a channel on which evt18 arrives
  after ten seconds (with the state in which it was started, for printing); \<^verbatim>\<open>stopTimer\<close>
  replaces it by a channel on which nothing arrives.
\<close>

datatype timerChannel = TimerNil | TimerStopped | TimerStarted stateType

datatype ServiceUserParams =
  ServiceUserParams (CalledAETitle: string) (CallingAETitle: string) (SOPClasses: "string list")
    (TransferSyntaxes: "string list")

text \<open>
  \<^verbatim>\<open>stateMachine\<close>. The channels are kept as what the actions do with them: \<open>trace\<close>
  lists the effects so far, \<open>upcallChClosed\<close> tells whether \<^verbatim>\<open>upcallCh\<close> was closed
  (closing it again, or sending on it, panics). The fault injector, ``only for
  testing'', is nil. The event a step handles is an argument of the step: which channel
  delivers next is not the engine's choice.
\<close>

record stateMachine =
  isUser :: bool
  userParams :: ServiceUserParams
  contextManager :: contextManager
  conn :: "Conn option"
  currentState :: stateType
  commandAssembler :: CommandAssembler
  timerCh :: timerChannel
  upcallChClosed :: bool
  trace :: "effect list"

text \<open>
  What the state machine takes from outside the sources: the decoding above; the
  encoders \<^verbatim>\<open>pdu.EncodePDU\<close> and \<^verbatim>\<open>dimse.EncodeMessage\<close> (the latter is in the sources, but
  writes through the DICOM library and through helpers that are absent); the three
  operations of the context manager used by the association actions; the constants of
  package \<^verbatim>\<open>pdu\<close>.
\<close>

record env =
  dimseDeps :: deps
  EncodePDU :: "PDU \<Rightarrow> error + byte list"
  EncodeMessage :: "Message \<Rightarrow> error + byte list"
  generateAssociateRequest ::
    "contextManager \<Rightarrow> string list \<Rightarrow> string list \<Rightarrow> SubItem list \<times> contextManager"
  onAssociateRequest ::
    "contextManager \<Rightarrow> SubItem list \<Rightarrow> (error + SubItem list) \<times> contextManager"
  onAssociateResponse :: "contextManager \<Rightarrow> SubItem list \<Rightarrow> error option \<times> contextManager"
  CurrentProtocolVersion :: uint16
  ResultRejectedPermanent :: byte
  SourceULServiceProviderACSE :: byte
  AbortReasonUnexpectedPDU :: byte

section \<open>Sending, timer, closing\<close>

text \<open>\<open>thenP\<close> runs the next statement unless the one before panicked.\<close>

definition thenP :: "panic + 'a \<Rightarrow> ('a \<Rightarrow> panic + 'b) \<Rightarrow> panic + 'b" where
  "thenP r k = (case r of Inl p \<Rightarrow> Inl p | Inr v \<Rightarrow> k v)"

definition doassert :: "bool \<Rightarrow> panic + unit" where
  "doassert cond = (if cond then Inr () else Inl PanicAssert)"

definition closeConn :: "stateMachine \<Rightarrow> stateMachine" where
  "closeConn sm = sm\<lparr>conn := map_option (\<lambda>c. Conn False) (conn sm), trace := trace sm @ [ConnClose]\<rparr>"

definition closeConnection :: "stateMachine \<Rightarrow> panic + stateMachine" where
  "closeConnection sm =
     (if upcallChClosed sm then Inl PanicCloseOfClosedChannel
      else
        (let sm1 = sm\<lparr>upcallChClosed := True, trace := trace sm @ [UpcallChClose]\<rparr>
         in if conn sm1 \<noteq> None then Inr (closeConn sm1) else Inr sm1))"

definition sendPDU :: "env \<Rightarrow> stateMachine \<Rightarrow> PDU \<Rightarrow> panic + stateMachine" where
  "sendPDU env sm v =
     (case conn sm of
        None \<Rightarrow> Inl PanicAssert
      | Some c \<Rightarrow>
          (case EncodePDU env v of
             Inl e \<Rightarrow>
               (let sm1 = closeConn sm
                in Inr (sm1\<lparr>trace := trace sm1 @
                     [ErrorEvent \<lparr>event = evt17, pdu = None, err = Some e, eventConn = None,
                        dimsePayload = None\<rparr>]\<rparr>))
           | Inr data \<Rightarrow>
               if writable c then Inr (sm\<lparr>trace := trace sm @ [ConnWrite v]\<rparr>)
               else
                 (let sm1 = closeConn sm
                  in Inr (sm1\<lparr>trace := trace sm1 @
                       [ErrorEvent \<lparr>event = evt17, pdu = None,
                          err = Some (ErrExternal ''write''), eventConn = None,
                          dimsePayload = None\<rparr>]\<rparr>))))"

fun sendPDUs :: "env \<Rightarrow> stateMachine \<Rightarrow> PDU list \<Rightarrow> panic + stateMachine" where
  "sendPDUs env sm [] = Inr sm"
| "sendPDUs env sm (v # vs) = thenP (sendPDU env sm v) (\<lambda>sm1. sendPDUs env sm1 vs)"

definition startTimer :: "stateMachine \<Rightarrow> stateMachine" where
  "startTimer sm = sm\<lparr>timerCh := TimerStarted (currentState sm)\<rparr>"

definition restartTimer :: "stateMachine \<Rightarrow> stateMachine" where
  "restartTimer sm = startTimer sm"

definition stopTimer :: "stateMachine \<Rightarrow> stateMachine" where
  "stopTimer sm = sm\<lparr>timerCh := TimerStopped\<rparr>"

text \<open>Sending on the upcall channel, and on the downcall channel.\<close>

definition upcall :: "stateMachine \<Rightarrow> upcallEvent \<Rightarrow> panic + stateMachine" where
  "upcall sm e =
     (if upcallChClosed sm then Inl PanicSendOnClosedChannel
      else Inr (sm\<lparr>trace := trace sm @ [Upcall e]\<rparr>))"

definition downcall :: "stateMachine \<Rightarrow> stateEvent \<Rightarrow> stateMachine" where
  "downcall sm e = sm\<lparr>trace := trace sm @ [Downcall e]\<rparr>"

section \<open>splitDataIntoPDUs\<close>

text \<open>
  The loop of \<^verbatim>\<open>splitDataIntoPDUs\<close>. The code enters it only with a positive
  \<^verbatim>\<open>maxChunkSize\<close> (it panics before otherwise), and the loop of the model stops at once
  when it is not.
\<close>

function splitLoop ::
  "byte \<Rightarrow> bool \<Rightarrow> int \<Rightarrow> byte list \<Rightarrow> PDataTf list \<Rightarrow> PDataTf list" where
  "splitLoop cid cmd maxChunkSize data pdus =
     (if length data > 0 \<and> maxChunkSize > 0 then
        (let chunkSize = (if int (length data) > maxChunkSize then maxChunkSize
                          else int (length data));
             chunk = take (nat chunkSize) data
         in splitLoop cid cmd maxChunkSize (drop (nat chunkSize) data)
              (pdus @ [\<lparr>Items = [\<lparr>ContextID = cid, Command = cmd, Last = False,
                                   Value = chunk\<rparr>]\<rparr>]))
      else pdus)"
  by pat_completeness auto
termination
  by (relation "measure (\<lambda>(cid, cmd, maxChunkSize, data, pdus). length data)") auto

declare splitLoop.simps [simp del]

text \<open>\<^verbatim>\<open>pdus[len(pdus)-1].Items[0].Last = true\<close>, when there is a PDU.\<close>

definition markLast :: "PDataTf list \<Rightarrow> PDataTf list" where
  "markLast pdus =
     (if length pdus > 0 then
        pdus[length pdus - 1 :=
          (pdus ! (length pdus - 1))
            \<lparr>Items := (Items (pdus ! (length pdus - 1)))
               [0 := (Items (pdus ! (length pdus - 1)) ! 0)\<lparr>Last := True\<rparr>]\<rparr>]
      else pdus)"

definition splitDataIntoPDUs ::
  "stateMachine \<Rightarrow> string \<Rightarrow> bool \<Rightarrow> byte list \<Rightarrow> panic + PDataTf list" where
  "splitDataIntoPDUs sm abstractSyntaxName' cmd data =
     thenP (doassert (length data > 0)) (\<lambda>_.
       case lookupByAbstractSyntaxUID (contextManager sm) abstractSyntaxName' of
         Inl e \<Rightarrow> Inl (PanicIllegalSyntaxName abstractSyntaxName')
       | Inr context \<Rightarrow>
           (let maxChunkSize = peerMaxPDUSize (contextManager sm) - 8
            in if maxChunkSize \<le> 0
               then Inl (PanicInvalidMaxPDUSize (peerMaxPDUSize (contextManager sm)))
               else Inr (markLast
                      (splitLoop (entryContextID context) cmd maxChunkSize data []))))"

section \<open>Actions\<close>

text \<open>
  A callback takes the state machine and the event and returns the next state; the model
  returns with it the state machine after the effects of the action, or the panic that
  stopped it.
\<close>

type_synonym callback = "env \<Rightarrow> stateMachine \<Rightarrow> stateEvent \<Rightarrow> panic + stateMachine \<times> stateType"

definition Ae1 :: callback where
  "Ae1 env sm ev = Inr (sm, sta04)"

definition Ae2 :: callback where
  "Ae2 env sm ev =
     thenP (doassert (eventConn ev \<noteq> None)) (\<lambda>_.
       let sm1 = sm\<lparr>conn := eventConn ev, trace := trace sm @ [ReaderStart]\<rparr>;
           (items, cm) = generateAssociateRequest env (contextManager sm1)
                           (SOPClasses (userParams sm1)) (TransferSyntaxes (userParams sm1));
           sm2 = sm1\<lparr>contextManager := cm\<rparr>
       in thenP (sendPDU env sm2
                   (AAssociateRQ (CurrentProtocolVersion env) (CalledAETitle (userParams sm2))
                      (CallingAETitle (userParams sm2)) items)) (\<lambda>sm3.
            Inr (startTimer sm3, sta05)))"

definition Aa8 :: callback where
  "Aa8 env sm ev =
     thenP (sendPDU env sm (AAbort 2 0)) (\<lambda>sm1. Inr (startTimer sm1, sta13))"

definition Ae3 :: callback where
  "Ae3 env sm ev =
     (let sm1 = stopTimer sm in
      case pdu ev of
        Some (AAssociateAC version called calling items) \<Rightarrow>
          (case onAssociateResponse env (contextManager sm1) items of
             (None, cm) \<Rightarrow>
               thenP (upcall (sm1\<lparr>contextManager := cm\<rparr>) (upcallEventHandshakeCompleted cm))
                 (\<lambda>sm2. Inr (sm2, sta06))
           | (Some e, cm) \<Rightarrow> Aa8 env (sm1\<lparr>contextManager := cm\<rparr>) ev)
      | _ \<Rightarrow> Inl PanicTypeAssertion)"

definition Ae4 :: callback where
  "Ae4 env sm ev = thenP (closeConnection sm) (\<lambda>sm1. Inr (sm1, sta01))"

definition Ae5 :: callback where
  "Ae5 env sm ev =
     thenP (doassert (eventConn ev \<noteq> None)) (\<lambda>_.
       let sm1 = startTimer sm in Inr (sm1\<lparr>trace := trace sm1 @ [ReaderStart]\<rparr>, sta02))"

definition Ae6 :: callback where
  "Ae6 env sm ev =
     (let sm1 = stopTimer sm in
      case pdu ev of
        Some (AAssociateRQ version called calling items) \<Rightarrow>
          if version \<noteq> 0x0001 then
            thenP (sendPDU env sm1 (AAssociateRj 1 2 2)) (\<lambda>sm2. Inr (startTimer sm2, sta13))
          else
            (case onAssociateRequest env (contextManager sm1) items of
               (Inl e, cm) \<Rightarrow>
                 Inr (downcall (sm1\<lparr>contextManager := cm\<rparr>)
                        \<lparr>event = evt08,
                         pdu = Some (AAssociateRj (ResultRejectedPermanent env)
                                       (SourceULServiceProviderACSE env) 1),
                         err = None, eventConn = None, dimsePayload = None\<rparr>, sta03)
             | (Inr responses, cm) \<Rightarrow>
                 thenP (doassert (length responses > 0)) (\<lambda>_.
                 thenP (doassert (called \<noteq> [])) (\<lambda>_.
                 thenP (doassert (calling \<noteq> [])) (\<lambda>_.
                   Inr (downcall (sm1\<lparr>contextManager := cm\<rparr>)
                          \<lparr>event = evt07,
                           pdu = Some (AAssociateAC (CurrentProtocolVersion env) called calling
                                         responses),
                           err = None, eventConn = None, dimsePayload = None\<rparr>, sta03)))))
      | _ \<Rightarrow> Inl PanicTypeAssertion)"

definition Ae7 :: callback where
  "Ae7 env sm ev =
     (case pdu ev of
        Some (AAssociateAC version called calling items) \<Rightarrow>
          thenP (sendPDU env sm (AAssociateAC version called calling items)) (\<lambda>sm1.
          thenP (upcall sm1 (upcallEventHandshakeCompleted (contextManager sm1))) (\<lambda>sm2.
            Inr (sm2, sta06)))
      | _ \<Rightarrow> Inl PanicTypeAssertion)"

definition Ae8 :: callback where
  "Ae8 env sm ev =
     (case pdu ev of
        Some (AAssociateRj result source reason) \<Rightarrow>
          thenP (sendPDU env sm (AAssociateRj result source reason)) (\<lambda>sm1.
            Inr (startTimer sm1, sta13))
      | _ \<Rightarrow> Inl PanicTypeAssertion)"

text \<open>
  What DT-1 and AR-7 share: the command is encoded, split and sent; then the data, when
  the command has data. \<open>noData\<close> is what each of the two does when the command has
  none.
\<close>

definition sendDIMSE ::
  "env \<Rightarrow> stateMachine \<Rightarrow> stateEvent \<Rightarrow> (byte list \<Rightarrow> panic + unit) \<Rightarrow> panic + stateMachine" where
  "sendDIMSE env sm ev noData =
     thenP (doassert (dimsePayload ev \<noteq> None)) (\<lambda>_.
       case dimsePayload ev of
         None \<Rightarrow> Inl PanicNilDereference
       | Some payload \<Rightarrow>
           thenP (doassert (payloadCommand payload \<noteq> None)) (\<lambda>_.
             case payloadCommand payload of
               None \<Rightarrow> Inl PanicNilDereference
             | Some cmd \<Rightarrow>
                 (case EncodeMessage env cmd of
                    Inl e \<Rightarrow> Inl (PanicEncodeDIMSE e)
                  | Inr bytes \<Rightarrow>
                      thenP (splitDataIntoPDUs sm (abstractSyntaxName payload) True bytes) (\<lambda>pdus.
                      thenP (sendPDUs env sm (map PDataTfPDU pdus)) (\<lambda>sm1.
                        if HasData cmd then
                          thenP (splitDataIntoPDUs sm1 (abstractSyntaxName payload) False
                                   (payloadData payload)) (\<lambda>pdus.
                            sendPDUs env sm1 (map PDataTfPDU pdus))
                        else
                          thenP (noData (payloadData payload)) (\<lambda>_. Inr sm1))))))"

definition Dt1 :: callback where
  "Dt1 env sm ev =
     thenP (sendDIMSE env sm ev
              (\<lambda>data. if length data > 0 then Inl (PanicFoundDIMSEData (length data)) else Inr ()))
       (\<lambda>sm1. Inr (sm1, sta06))"

definition Dt2 :: callback where
  "Dt2 env sm ev =
     (case pdu ev of
        Some (PDataTfPDU p) \<Rightarrow>
          thenP (AddDataPDU (dimseDeps env) (commandAssembler sm) p) (\<lambda>(r, ca).
            let sm1 = sm\<lparr>commandAssembler := ca\<rparr> in
            case r of
              Inr (contextID', Some cmd, data) \<Rightarrow>
                thenP (upcall sm1 (upcallEventData (contextManager sm1) contextID' cmd data))
                  (\<lambda>sm2. Inr (sm2, sta06))
            | Inr (contextID', None, data) \<Rightarrow> Inr (sm1, sta06)
            | Inl e \<Rightarrow> Aa8 env sm1 ev)
      | _ \<Rightarrow> Inl PanicTypeAssertion)"

definition Ar1 :: callback where
  "Ar1 env sm ev = thenP (sendPDU env sm AReleaseRq) (\<lambda>sm1. Inr (sm1, sta07))"

definition Ar2 :: callback where
  "Ar2 env sm ev =
     Inr (downcall sm \<lparr>event = evt14, pdu = None, err = None, eventConn = None,
                       dimsePayload = None\<rparr>, sta08)"

definition Ar3 :: callback where
  "Ar3 env sm ev =
     thenP (sendPDU env sm AReleaseRp) (\<lambda>sm1.
     thenP (closeConnection sm1) (\<lambda>sm2. Inr (sm2, sta01)))"

definition Ar4 :: callback where
  "Ar4 env sm ev = thenP (sendPDU env sm AReleaseRp) (\<lambda>sm1. Inr (startTimer sm1, sta13))"

definition Ar5 :: callback where
  "Ar5 env sm ev = Inr (stopTimer sm, sta01)"

definition Ar6 :: callback where
  "Ar6 env sm ev = Inr (sm, sta07)"

definition Ar7 :: callback where
  "Ar7 env sm ev =
     thenP (sendDIMSE env sm ev (\<lambda>data. doassert (length data = 0))) (\<lambda>sm1.
       Inr (downcall sm1 \<lparr>event = evt14, pdu = None, err = None, eventConn = None,
                          dimsePayload = None\<rparr>, sta08))"

definition Ar8 :: callback where
  "Ar8 env sm ev = (if isUser sm then Inr (sm, sta09) else Inr (sm, sta10))"

definition Ar9 :: callback where
  "Ar9 env sm ev = thenP (sendPDU env sm AReleaseRp) (\<lambda>sm1. Inr (sm1, sta11))"

definition Ar10 :: callback where
  "Ar10 env sm ev = Inr (sm, sta12)"

definition Aa1 :: callback where
  "Aa1 env sm ev =
     (let diagnostic = (if currentState sm = sta02 then AbortReasonUnexpectedPDU env else 0)
      in thenP (sendPDU env sm (AAbort 0 diagnostic)) (\<lambda>sm1. Inr (restartTimer sm1, sta13)))"

definition Aa2 :: callback where
  "Aa2 env sm ev = thenP (closeConnection (stopTimer sm)) (\<lambda>sm1. Inr (sm1, sta01))"

definition Aa3 :: callback where
  "Aa3 env sm ev = thenP (closeConnection sm) (\<lambda>sm1. Inr (sm1, sta01))"

definition Aa4 :: callback where
  "Aa4 env sm ev = Inr (sm, sta01)"

definition Aa5 :: callback where
  "Aa5 env sm ev = Inr (stopTimer sm, sta01)"

definition Aa6 :: callback where
  "Aa6 env sm ev = Inr (sm, sta13)"

definition Aa7 :: callback where
  "Aa7 env sm ev = thenP (sendPDU env sm (AAbort 0 0)) (\<lambda>sm1. Inr (sm1, sta13))"

text \<open>\<^verbatim>\<open>stateAction\<close>: the actions by name, and the callback of each.\<close>

datatype stateAction =
    actionAe1 | actionAe2 | actionAe3 | actionAe4 | actionAe5 | actionAe6 | actionAe7 | actionAe8
  | actionDt1 | actionDt2
  | actionAr1 | actionAr2 | actionAr3 | actionAr4 | actionAr5 | actionAr6 | actionAr7 | actionAr8
  | actionAr9 | actionAr10
  | actionAa1 | actionAa2 | actionAa3 | actionAa4 | actionAa5 | actionAa6 | actionAa7 | actionAa8

fun Callback :: "stateAction \<Rightarrow> callback" where
  "Callback actionAe1 = Ae1"
| "Callback actionAe2 = Ae2"
| "Callback actionAe3 = Ae3"
| "Callback actionAe4 = Ae4"
| "Callback actionAe5 = Ae5"
| "Callback actionAe6 = Ae6"
| "Callback actionAe7 = Ae7"
| "Callback actionAe8 = Ae8"
| "Callback actionDt1 = Dt1"
| "Callback actionDt2 = Dt2"
| "Callback actionAr1 = Ar1"
| "Callback actionAr2 = Ar2"
| "Callback actionAr3 = Ar3"
| "Callback actionAr4 = Ar4"
| "Callback actionAr5 = Ar5"
| "Callback actionAr6 = Ar6"
| "Callback actionAr7 = Ar7"
| "Callback actionAr8 = Ar8"
| "Callback actionAr9 = Ar9"
| "Callback actionAr10 = Ar10"
| "Callback actionAa1 = Aa1"
| "Callback actionAa2 = Aa2"
| "Callback actionAa3 = Aa3"
| "Callback actionAa4 = Aa4"
| "Callback actionAa5 = Aa5"
| "Callback actionAa6 = Aa6"
| "Callback actionAa7 = Aa7"
| "Callback actionAa8 = Aa8"

section \<open>Transition table and step\<close>

definition stateTransitions :: "((stateType \<times> eventType) \<times> stateAction) list" where
  "stateTransitions =
    [((sta01, evt01), actionAe1),
     ((sta01, evt05), actionAe5),
     ((sta02, evt03), actionAa1),
     ((sta02, evt04), actionAa1),
     ((sta02, evt06), actionAe6),
     ((sta02, evt10), actionAa1),
     ((sta02, evt12), actionAa1),
     ((sta02, evt13), actionAa1),
     ((sta02, evt16), actionAa2),
     ((sta02, evt17), actionAa5),
     ((sta02, evt18), actionAa2),
     ((sta02, evt19), actionAa1),
     ((sta03, evt03), actionAa8),
     ((sta03, evt04), actionAa8),
     ((sta03, evt06), actionAa8),
     ((sta03, evt07), actionAe7),
     ((sta03, evt08), actionAe8),
     ((sta03, evt10), actionAa8),
     ((sta03, evt12), actionAa8),
     ((sta03, evt13), actionAa8),
     ((sta03, evt15), actionAa1),
     ((sta03, evt16), actionAa3),
     ((sta03, evt17), actionAa4),
     ((sta03, evt19), actionAa8),
     ((sta04, evt02), actionAe2),
     ((sta04, evt15), actionAa2),
     ((sta04, evt17), actionAa4),
     ((sta05, evt03), actionAe3),
     ((sta05, evt04), actionAe4),
     ((sta05, evt06), actionAa8),
     ((sta05, evt10), actionAa8),
     ((sta05, evt12), actionAa8),
     ((sta05, evt13), actionAa8),
     ((sta05, evt15), actionAa1),
     ((sta05, evt16), actionAa3),
     ((sta05, evt17), actionAa4),
     ((sta05, evt18), actionAa8),
     ((sta05, evt19), actionAa8),
     ((sta06, evt03), actionAa8),
     ((sta06, evt04), actionAa8),
     ((sta06, evt06), actionAa8),
     ((sta06, evt09), actionDt1),
     ((sta06, evt10), actionDt2),
     ((sta06, evt11), actionAr1),
     ((sta06, evt12), actionAr2),
     ((sta06, evt13), actionAa8),
     ((sta06, evt15), actionAa1),
     ((sta06, evt16), actionAa3),
     ((sta06, evt17), actionAa4),
     ((sta06, evt19), actionAa8),
     ((sta07, evt03), actionAa8),
     ((sta07, evt04), actionAa8),
     ((sta07, evt06), actionAa8),
     ((sta07, evt10), actionAr6),
     ((sta07, evt12), actionAr8),
     ((sta07, evt13), actionAr3),
     ((sta07, evt15), actionAa1),
     ((sta07, evt16), actionAa3),
     ((sta07, evt17), actionAa4),
     ((sta07, evt19), actionAa8),
     ((sta08, evt03), actionAa8),
     ((sta08, evt04), actionAa8),
     ((sta08, evt06), actionAa8),
     ((sta08, evt09), actionAr7),
     ((sta08, evt10), actionAa8),
     ((sta08, evt12), actionAa8),
     ((sta08, evt13), actionAa8),
     ((sta08, evt14), actionAr4),
     ((sta08, evt15), actionAa1),
     ((sta08, evt16), actionAa3),
     ((sta08, evt17), actionAa4),
     ((sta08, evt19), actionAa8),
     ((sta09, evt03), actionAa8),
     ((sta09, evt04), actionAa8),
     ((sta09, evt06), actionAa8),
     ((sta09, evt10), actionAa8),
     ((sta09, evt12), actionAa8),
     ((sta09, evt13), actionAa8),
     ((sta09, evt14), actionAr9),
     ((sta09, evt15), actionAa1),
     ((sta09, evt16), actionAa3),
     ((sta09, evt17), actionAa4),
     ((sta09, evt19), actionAa8),
     ((sta10, evt03), actionAa8),
     ((sta10, evt04), actionAa8),
     ((sta10, evt06), actionAa8),
     ((sta10, evt10), actionAa8),
     ((sta10, evt12), actionAa8),
     ((sta10, evt13), actionAr10),
     ((sta10, evt15), actionAa1),
     ((sta10, evt16), actionAa3),
     ((sta10, evt17), actionAa4),
     ((sta10, evt19), actionAa8),
     ((sta11, evt03), actionAa8),
     ((sta11, evt04), actionAa8),
     ((sta11, evt06), actionAa8),
     ((sta11, evt10), actionAa8),
     ((sta11, evt12), actionAa8),
     ((sta11, evt13), actionAr3),
     ((sta11, evt15), actionAa1),
     ((sta11, evt16), actionAa3),
     ((sta11, evt17), actionAa4),
     ((sta11, evt19), actionAa8),
     ((sta12, evt03), actionAa8),
     ((sta12, evt04), actionAa8),
     ((sta12, evt06), actionAa8),
     ((sta12, evt10), actionAa8),
     ((sta12, evt12), actionAa8),
     ((sta12, evt13), actionAa8),
     ((sta12, evt14), actionAr4),
     ((sta12, evt15), actionAa1),
     ((sta12, evt16), actionAa3),
     ((sta12, evt17), actionAa4),
     ((sta12, evt19), actionAa8),
     ((sta13, evt03), actionAa6),
     ((sta13, evt04), actionAa6),
     ((sta13, evt06), actionAa7),
     ((sta13, evt07), actionAa7),
     ((sta13, evt08), actionAa7),
     ((sta13, evt09), actionAa7),
     ((sta13, evt10), actionAa6),
     ((sta13, evt11), actionAa6),
     ((sta13, evt12), actionAa6),
     ((sta13, evt13), actionAa6),
     ((sta13, evt14), actionAa6),
     ((sta13, evt15), actionAa2),
     ((sta13, evt16), actionAa2),
     ((sta13, evt17), actionAr5),
     ((sta13, evt18), actionAa2),
     ((sta13, evt19), actionAa7)]"

definition findAction :: "stateType \<Rightarrow> stateEvent \<Rightarrow> stateAction option" where
  "findAction currentState' ev = map_of stateTransitions (currentState', event ev)"

text \<open>
  \<^verbatim>\<open>getNextEvent\<close>, after the event \<open>ev\<close> has arrived on one of the channels: evt02 sets
  the connection, evt17 closes the upcall channel and forgets the connection.
\<close>

definition getNextEvent :: "stateMachine \<Rightarrow> stateEvent \<Rightarrow> panic + stateMachine" where
  "getNextEvent sm ev =
     (if event ev = evt02 then
        thenP (doassert (eventConn ev \<noteq> None)) (\<lambda>_. Inr (sm\<lparr>conn := eventConn ev\<rparr>))
      else if event ev = evt17 then
        (if upcallChClosed sm then Inl PanicCloseOfClosedChannel
         else Inr (sm\<lparr>upcallChClosed := True, conn := None,
                     trace := trace sm @ [UpcallChClose]\<rparr>))
      else Inr sm)"

text \<open>
  \<^verbatim>\<open>eventType.String\<close> panics on an event that has no description; \<^verbatim>\<open>runOneStep\<close> calls
  it when it finds no action.
\<close>

definition eventString :: "eventType \<Rightarrow> panic + unit" where
  "eventString e = (if evt01 \<le> e \<and> e \<le> evt19 then Inr () else Inl (PanicUnknownEventType e))"

definition runOneStep :: "env \<Rightarrow> stateMachine \<Rightarrow> stateEvent \<Rightarrow> panic + stateMachine" where
  "runOneStep env sm ev =
     thenP (getNextEvent sm ev) (\<lambda>sm1.
       thenP (case findAction (currentState sm1) ev of
                Some action \<Rightarrow> Inr action
              | None \<Rightarrow> thenP (eventString (event ev)) (\<lambda>_. Inr actionAa2)) (\<lambda>action.
         thenP (Callback action env sm1 ev) (\<lambda>(sm2, newState).
           Inr (sm2\<lparr>currentState := newState\<rparr>))))"

text \<open>The steps for a list of events, one after the other.\<close>

fun runSteps :: "env \<Rightarrow> stateMachine \<Rightarrow> stateEvent list \<Rightarrow> panic + stateMachine" where
  "runSteps env sm [] = Inr sm"
| "runSteps env sm (ev # evs) = thenP (runOneStep env sm ev) (\<lambda>sm1. runSteps env sm1 evs)"

section \<open>Empty value lists\<close>

text \<open>
  C10. When the element of the tag is present and carries an empty value list,
  \<^verbatim>\<open>GetUInt16\<close> returns 0 and \<^verbatim>\<open>GetString\<close> returns the empty string, with no error,
  whether the element is required or optional; the decoder is left as it was, so the
  element is still among the elements that \<^verbatim>\<open>UnparsedElements\<close> returns.
\<close>

theorem empty_value_list_not_consumed:
  assumes "map_of (elements d) tag = Some elem"
  shows "(ElemValue elem = Some (IntsValue []) \<longrightarrow>
            GetUInt16 d tag optional = (Inr 0, d)
            \<and> elem \<in> set (UnparsedElements (snd (GetUInt16 d tag optional))))
       \<and> (ElemValue elem = Some (StringsValue []) \<longrightarrow>
            GetString d tag optional = (Inr '''', d)
            \<and> elem \<in> set (UnparsedElements (snd (GetString d tag optional))))"
proof -
  from assms have "(tag, elem) \<in> set (elements d)"
    by (rule map_of_SomeD)
  then have mem: "elem \<in> set (UnparsedElements d)"
    by (force simp: UnparsedElements_def)
  show ?thesis
    using assms mem by (simp add: GetUInt16_def GetString_def)
qed

theorem empty_value_list_not_consumed_witness:
  "GetUInt16 \<lparr>elements = [((0, 0x100), Element (0, 0x100) (Some (IntsValue [])))]\<rparr>
       (0, 0x100) RequiredElement
     = (Inr 0, \<lparr>elements = [((0, 0x100), Element (0, 0x100) (Some (IntsValue [])))]\<rparr>)
   \<and> Element (0, 0x100) (Some (IntsValue []))
       \<in> set (UnparsedElements (snd (GetUInt16
           \<lparr>elements = [((0, 0x100), Element (0, 0x100) (Some (IntsValue [])))]\<rparr>
           (0, 0x100) RequiredElement)))
   \<and> GetString \<lparr>elements = [((0, 2), Element (0, 2) (Some (StringsValue [])))]\<rparr>
       (0, 2) RequiredElement
     = (Inr '''', \<lparr>elements = [((0, 2), Element (0, 2) (Some (StringsValue [])))]\<rparr>)
   \<and> Element (0, 2) (Some (StringsValue []))
       \<in> set (UnparsedElements (snd (GetString
           \<lparr>elements = [((0, 2), Element (0, 2) (Some (StringsValue [])))]\<rparr>
           (0, 2) RequiredElement)))"
  using
    empty_value_list_not_consumed
      [of "\<lparr>elements = [((0, 0x100), Element (0, 0x100) (Some (IntsValue [])))]\<rparr>"
          "(0, 0x100)" "Element (0, 0x100) (Some (IntsValue []))" RequiredElement]
    empty_value_list_not_consumed
      [of "\<lparr>elements = [((0, 2), Element (0, 2) (Some (StringsValue [])))]\<rparr>"
          "(0, 2)" "Element (0, 2) (Some (StringsValue []))" RequiredElement]
  by (simp add: UnparsedElements_def)

end
